theory Spec2Isabelle
  imports Main
begin

section \<open>Errors\<close>

text \<open>
  The error values the power controller and the router hand around. The three gate errors,
  \<open>ErrIsRunning\<close> and \<open>ErrSuspended\<close> are the package's sentinel values;
  \<open>DeadlineExceeded\<close> is \<open>context.DeadlineExceeded\<close>; \<open>ErrorsNew\<close> is
  \<open>errors.New\<close>; \<open>WithMessage\<close> is \<open>errors.WithMessage\<close>, which wraps an error;
  \<open>Collaborator\<close> is any error that originates in a collaborator (backend environment,
  panel, filesystem).
\<close>

datatype error =
    ErrServerIsInstalling
  | ErrServerIsTransferring
  | ErrServerIsRestoring
  | ErrIsRunning
  | ErrSuspended
  | DeadlineExceeded
  | ErrorsNew string
  | WithMessage error string
  | Collaborator string

text \<open>\<open>errors.Is\<close>: the target is the error itself or is wrapped somewhere inside it.\<close>

fun errors_Is :: "error \<Rightarrow> error \<Rightarrow> bool" where
  "errors_Is (WithMessage e msg) target = (WithMessage e msg = target \<or> errors_Is e target)"
| "errors_Is e target = (e = target)"

text \<open>The error both lock branches of \<open>HandlePowerAction\<close> build when the lock is not obtained.\<close>

definition LockTimeout :: error where
  "LockTimeout = WithMessage DeadlineExceeded ''could not acquire lock on power state''"

section \<open>Power actions\<close>

text \<open>\<open>type PowerAction string\<close> and its four constants.\<close>

type_synonym PowerAction = string

definition PowerActionStart :: PowerAction where "PowerActionStart = ''start''"
definition PowerActionStop :: PowerAction where "PowerActionStop = ''stop''"
definition PowerActionRestart :: PowerAction where "PowerActionRestart = ''restart''"
definition PowerActionTerminate :: PowerAction where "PowerActionTerminate = ''kill''"

definition IsValid :: "PowerAction \<Rightarrow> bool" where
  "IsValid pa = (pa = PowerActionStart \<or> pa = PowerActionStop \<or>
                 pa = PowerActionTerminate \<or> pa = PowerActionRestart)"

definition IsStart :: "PowerAction \<Rightarrow> bool" where
  "IsStart pa = (pa = PowerActionStart \<or> pa = PowerActionRestart)"

section \<open>The power lock\<close>

text \<open>
  \<open>semaphore.NewWeighted(1)\<close>: a semaphore of capacity one, whose single unit is either free
  or held. The semaphore is a library type; the three operations the server uses on it are
  modelled by their effect on that unit.
  \<^item> \<open>TryAcquire(1)\<close> takes the unit when it is free and reports whether it did.
  \<^item> \<open>Release(1)\<close> gives the unit back. The server releases only after an acquisition of its
    own, so the unit is held whenever \<open>Release\<close> runs.
  \<^item> \<open>Acquire(ctx, 1)\<close> blocks until the unit is obtained or the context's deadline passes.
    Which of the two happens depends on the clock and on the other holder, so the outcome is a
    parameter (\<open>in_time\<close>); on failure the call returns the context's error, which for a
    context built by \<open>context.WithTimeout\<close> is \<open>context.DeadlineExceeded\<close>, and leaves
    the unit as it was.
\<close>

datatype semaphore = Free | Held

fun TryAcquire :: "semaphore \<Rightarrow> bool \<times> semaphore" where
  "TryAcquire Free = (True, Held)"
| "TryAcquire Held = (False, Held)"

fun Release :: "semaphore \<Rightarrow> semaphore" where
  "Release l = Free"

definition Acquire :: "bool \<Rightarrow> semaphore \<Rightarrow> error option \<times> semaphore" where
  "Acquire in_time l = (if in_time then (None, Held) else (Some DeadlineExceeded, l))"

section \<open>Servers, collaborators and the observable run\<close>

text \<open>
  The part of the server's configuration the controller reads and writes: the suspended flag
  (\<open>IsSuspended\<close>, \<open>SetSuspended\<close>) and the disk limit (\<open>DiskSpace\<close>).
\<close>

record configuration =
  Suspended :: bool
  DiskSpace :: int

record server =
  uuid :: string
  cfg :: configuration
  installing :: bool
  transferring :: bool
  restoring :: bool
  powerLock :: "semaphore option"

datatype process_state = ProcessOfflineState | ProcessOtherState string

datatype os_signal = Interrupt | Kill

text \<open>Work handed to a goroutine (\<open>go func ...\<close>): it is recorded as spawned and not run.\<close>

datatype task =
    RemoveAll string
  | Reinstall
  | UpdateCachedDiskUsage

text \<open>Every call the modelled functions make on a collaborator, in the order made.\<close>

datatype event =
    NewWeighted nat
  | LockTryAcquire bool
  | LockAcquire int bool
  | LockRelease
  | EnvState
  | EnvStart
  | EnvWaitForStop nat bool
  | EnvTerminate os_signal
  | EnvDestroy
  | LogInfo string
  | CallSync
  | ReadSuspended
  | CallSyncWithEnvironment
  | FsHasSpaceAvailable bool
  | FsHasSpaceErr bool
  | FsChown string
  | PublishConsoleOutputFromDaemon string
  | CallUpdateConfigurationFiles
  | SetSuspended bool
  | CtxCancel
  | EventsDestroy
  | WebsocketsCancelAll
  | DownloadCancel string
  | Go task
  | ManagerRemove string

datatype response =
    Status nat
  | AbortWithStatusJSON nat string
  | WithError error

text \<open>
  What the collaborators answer. Each is called at most once in a run of the functions below,
  so one answer per call (a function of the call's arguments) describes them.
  \<^item> \<open>Sync\<close>: the synchronization collaborator, which pulls the authoritative resource
    definition from the panel. Its code is not among the sources, so it is a parameter: any
    function from the current configuration to an error (or none) and the configuration
    afterwards.
  \<^item> \<open>HasSpaceAvailable\<close>: the value the call returns; the caller discards it.
  \<^item> \<open>acquire_in_time\<close>: whether a blocking \<open>Acquire\<close> obtains the lock before its deadline.
  \<^item> \<open>ByServer\<close>: \<open>downloader.ByServer\<close>, the pending downloads of a server.
  \<^item> \<open>Path\<close>: \<open>Filesystem().Path()\<close>.
\<close>

record world =
  State :: process_state
  Start :: "error option"
  WaitForStop :: "nat \<Rightarrow> bool \<Rightarrow> error option"
  Terminate :: "os_signal \<Rightarrow> error option"
  Destroy :: "error option"
  Sync :: "configuration \<Rightarrow> error option \<times> configuration"
  HasSpaceAvailable :: "bool \<Rightarrow> bool"
  HasSpaceErr :: "bool \<Rightarrow> error option"
  Chown :: "string \<Rightarrow> error option"
  CheckPermissionsOnBoot :: bool
  acquire_in_time :: bool
  ByServer :: "string \<Rightarrow> string list"
  Path :: string

text \<open>
  The state a handler runs in: the server it was given, the calls made so far, the goroutines
  spawned so far, the identifiers of the servers the manager holds, and the HTTP response
  written so far.
\<close>

record machine =
  srv :: server
  calls :: "event list"
  spawned :: "task list"
  manager :: "string list"
  response :: "response option"

definition emit :: "event list \<Rightarrow> machine \<Rightarrow> machine" where
  "emit evs m = m\<lparr>calls := calls m @ evs\<rparr>"

definition go :: "task \<Rightarrow> machine \<Rightarrow> machine" where
  "go t m = m\<lparr>calls := calls m @ [Go t], spawned := spawned m @ [t]\<rparr>"

definition set_lock :: "semaphore \<Rightarrow> machine \<Rightarrow> machine" where
  "set_lock l m = m\<lparr>srv := (srv m)\<lparr>powerLock := Some l\<rparr>\<rparr>"

definition set_cfg :: "configuration \<Rightarrow> machine \<Rightarrow> machine" where
  "set_cfg c m = m\<lparr>srv := (srv m)\<lparr>cfg := c\<rparr>\<rparr>"

definition respond :: "response \<Rightarrow> machine \<Rightarrow> machine" where
  "respond r m = m\<lparr>response := Some r\<rparr>"

text \<open>The calls a run added to the ones made before it.\<close>

definition new_calls :: "machine \<Rightarrow> machine \<Rightarrow> event list" where
  "new_calls m m' = drop (length (calls m)) (calls m')"

section \<open>ExecutingPowerAction\<close>

definition ExecutingPowerAction :: "machine \<Rightarrow> bool \<times> machine" where
  "ExecutingPowerAction m =
    (case powerLock (srv m) of
       None \<Rightarrow> (False, m)
     | Some l \<Rightarrow>
         (case TryAcquire l of
            (ok, l1) \<Rightarrow>
              let m1 = emit [LockTryAcquire ok] (set_lock l1 m);
                  m2 = (if ok then emit [LockRelease] (set_lock (Release l1) m1) else m1)
              in (\<not> ok, m2)))"

section \<open>The pre-boot pipeline\<close>

text \<open>
  Modelled from the spec: the storage collaborator's \<open>HasSpaceAvailable\<close>, whose code is not
  among the sources. The spec gives it as asynchronous, with no return consumed, and the
  recalculation as fire-and-forget: the call starts the usage recalculation as a detached
  task and returns at once. This is the call \<open>HasSpaceAvailable(true)\<close> of the unlimited
  branch; the value it returns is a parameter.
\<close>

definition kick_off_usage :: "world \<Rightarrow> machine \<Rightarrow> bool \<times> machine" where
  "kick_off_usage w m =
    (HasSpaceAvailable w True,
     (emit [FsHasSpaceAvailable True] m)\<lparr>spawned := spawned m @ [UpdateCachedDiskUsage]\<rparr>)"

definition onBeforeStart :: "world \<Rightarrow> machine \<Rightarrow> error option \<times> machine" where
  "onBeforeStart w m =
    (let m1 = emit [LogInfo ''syncing server configuration with panel'', CallSync] m in
     case Sync w (cfg (srv m1)) of
       (Some err, c) \<Rightarrow>
         (Some (WithMessage err ''unable to sync server data from Panel instance''), set_cfg c m1)
     | (None, c) \<Rightarrow>
         (let m2 = emit [ReadSuspended] (set_cfg c m1) in
          if Suspended (cfg (srv m2)) then (Some ErrSuspended, m2)
          else
            (let m3 = emit [CallSyncWithEnvironment] m2 in
             (case (if DiskSpace (cfg (srv m3)) \<le> 0
                    then (None, snd (kick_off_usage w m3))
                    else (HasSpaceErr w False,
                          emit [PublishConsoleOutputFromDaemon
                                  ''Checking server disk space usage, this could take a few seconds...'',
                                FsHasSpaceErr False] m3)) of
                (Some err, m4) \<Rightarrow> (Some err, m4)
              | (None, m4) \<Rightarrow>
                  (let m5 = emit [PublishConsoleOutputFromDaemon
                                   ''Updating process configuration files...'',
                                 CallUpdateConfigurationFiles] m4 in
                   if CheckPermissionsOnBoot w then
                     (let m6 = emit [PublishConsoleOutputFromDaemon
                                      ''Ensuring file permissions are set correctly, this could take a few seconds...'',
                                    FsChown ''/''] m5 in
                      (case Chown w ''/'' of
                         Some err \<Rightarrow>
                           (Some (WithMessage err
                              ''failed to chown root server directory during pre-boot process''), m6)
                       | None \<Rightarrow> (None, m6)))
                   else (None, m5))))))"

section \<open>HandlePowerAction\<close>

text \<open>
  The lock step (the \<open>if action != PowerActionTerminate\<close> statement). It yields the error
  to return at once, if any, whether a release was deferred, the semaphore afterwards and the
  calls made.
\<close>

definition lock_step ::
  "world \<Rightarrow> PowerAction \<Rightarrow> int list \<Rightarrow> semaphore \<Rightarrow> error option \<times> bool \<times> semaphore \<times> event list" where
  "lock_step w action waitSeconds l =
    (if action \<noteq> PowerActionTerminate then
       (if length waitSeconds > 0 \<and> hd waitSeconds \<noteq> 0 then
          (case Acquire (acquire_in_time w) l of
             (Some err, l1) \<Rightarrow>
               (Some (WithMessage err ''could not acquire lock on power state''), False, l1,
                [LockAcquire (hd waitSeconds) False])
           | (None, l1) \<Rightarrow> (None, True, l1, [LockAcquire (hd waitSeconds) True]))
        else
          (case TryAcquire l of
             (False, l1) \<Rightarrow>
               (Some (WithMessage DeadlineExceeded ''could not acquire lock on power state''),
                False, l1, [LockTryAcquire False])
           | (True, l1) \<Rightarrow> (None, True, l1, [LockTryAcquire True])))
     else
       (case TryAcquire l of
          (ok, l1) \<Rightarrow> (None, ok, l1, [LockTryAcquire ok])))"

text \<open>The \<open>switch action\<close> statement and the final \<open>return errors.New(...)\<close>.\<close>

definition power_switch :: "world \<Rightarrow> machine \<Rightarrow> PowerAction \<Rightarrow> error option \<times> machine" where
  "power_switch w m action =
    (if action = PowerActionStart then
       (let m1 = emit [EnvState] m in
        if State w \<noteq> ProcessOfflineState then (Some ErrIsRunning, m1)
        else
          (case onBeforeStart w m1 of
             (Some err, m2) \<Rightarrow> (Some err, m2)
           | (None, m2) \<Rightarrow> (Start w, emit [EnvStart] m2)))
     else if action = PowerActionStop then
       (WaitForStop w (10 * 60) True, emit [EnvWaitForStop (10 * 60) True] m)
     else if action = PowerActionRestart then
       (let m1 = emit [EnvWaitForStop (10 * 60) True] m in
        case WaitForStop w (10 * 60) True of
          Some err \<Rightarrow> (Some err, m1)
        | None \<Rightarrow>
            (case onBeforeStart w m1 of
               (Some err, m2) \<Rightarrow> (Some err, m2)
             | (None, m2) \<Rightarrow> (Start w, emit [EnvStart] m2)))
     else if action = PowerActionTerminate then
       (Terminate w Kill, emit [EnvTerminate Kill] m)
     else (Some (ErrorsNew ''attempting to handle unknown power action''), m))"

text \<open>
  The deferred \<open>s.powerLock.Release(1)\<close>, run when the function returns. (The other deferred
  call, \<open>cancel()\<close>, frees the timer of the timeout context and touches nothing of the
  server; it has no counterpart here.)
\<close>

definition deferred_release :: "machine \<Rightarrow> machine" where
  "deferred_release m =
    emit [LockRelease] (m\<lparr>srv := (srv m)\<lparr>powerLock := map_option Release (powerLock (srv m))\<rparr>\<rparr>)"

definition HandlePowerAction ::
  "world \<Rightarrow> machine \<Rightarrow> PowerAction \<Rightarrow> int list \<Rightarrow> error option \<times> machine" where
  "HandlePowerAction w m action waitSeconds =
    (if installing (srv m) then (Some ErrServerIsInstalling, m)
     else if transferring (srv m) then (Some ErrServerIsTransferring, m)
     else if restoring (srv m) then (Some ErrServerIsRestoring, m)
     else
       (case (case powerLock (srv m) of
                None \<Rightarrow> (Free, emit [NewWeighted 1] (set_lock Free m))
              | Some l \<Rightarrow> (l, m)) of
          (l, m1) \<Rightarrow>
            (case lock_step w action waitSeconds l of
               (Some err, deferred, l1, evs) \<Rightarrow> (Some err, emit evs (set_lock l1 m1))
             | (None, deferred, l1, evs) \<Rightarrow>
                 (case power_switch w (emit evs (set_lock l1 m1)) action of
                    (r, m3) \<Rightarrow> (r, if deferred then deferred_release m3 else m3)))))"

section \<open>The router's handlers\<close>

definition postServerReinstall :: "machine \<Rightarrow> machine" where
  "postServerReinstall m =
    (case ExecutingPowerAction m of
       (executing, m1) \<Rightarrow>
         if executing then
           respond (AbortWithStatusJSON 409
             ''Cannot execute server reinstall event while another power action is running.'') m1
         else respond (Status 202) (go Reinstall m1))"

text \<open>
  Modelled from the spec: the registry collaborator's \<open>Remove(predicate)\<close>, that is
  \<open>Manager.Remove\<close>, whose code is not among the sources. It drops every registered server
  the predicate holds for.
\<close>

definition Remove :: "(string \<Rightarrow> bool) \<Rightarrow> string list \<Rightarrow> string list" where
  "Remove match servers = filter (\<lambda>s. \<not> match s) servers"

definition deleteServer :: "world \<Rightarrow> machine \<Rightarrow> machine" where
  "deleteServer w m =
    (let m1 = emit [SetSuspended True] (set_cfg ((cfg (srv m))\<lparr>Suspended := True\<rparr>) m);
         m2 = emit [CtxCancel, EventsDestroy, WebsocketsCancelAll] m1;
         m3 = emit (map DownloadCancel (ByServer w (uuid (srv m2)))) m2;
         m4 = emit [EnvDestroy] m3
     in case Destroy w of
          Some err \<Rightarrow> respond (WithError err) m4
        | None \<Rightarrow>
            let m5 = go (RemoveAll (Path w)) m4;
                m6 = emit [ManagerRemove (uuid (srv m5))]
                       (m5\<lparr>manager := Remove (\<lambda>i. i = uuid (srv m5)) (manager m5)\<rparr>)
            in respond (Status 204) m6)"

section \<open>The SFTP file lister\<close>

datatype io_error = EOF

text \<open>
  Go's built-in \<open>copy(dst, src)\<close>: it overwrites the first \<open>min(len(dst), len(src))\<close>
  elements of \<open>dst\<close> and returns that number.
\<close>

definition copy :: "'a list \<Rightarrow> 'a list \<Rightarrow> 'a list \<times> nat" where
  "copy dst src =
    (let n = min (length dst) (length src) in (take n src @ drop n dst, n))"

text \<open>
  \<open>ListAt\<close> returns the buffer as written, the count and the error; a slice expression
  \<open>l[offset:]\<close> with a negative offset panics, which is the \<open>Inl\<close> result.
\<close>

definition ListAt :: "'a list \<Rightarrow> 'a list \<Rightarrow> int \<Rightarrow> string + ('a list \<times> nat \<times> io_error option)" where
  "ListAt l f offset =
    (if offset \<ge> int (length l) then Inr (f, 0, Some EOF)
     else if offset < 0 then Inl ''runtime error: slice bounds out of range''
     else
       (case copy f (drop (nat offset) l) of
          (f1, n) \<Rightarrow> if n < length f then Inr (f1, n, Some EOF) else Inr (f1, n, None)))"

section \<open>Vocabulary of the statements\<close>

text \<open>The pre-condition gate: none of the three flags checked at entry is set.\<close>

definition gate_passed :: "machine \<Rightarrow> bool" where
  "gate_passed m = (\<not> installing (srv m) \<and> \<not> transferring (srv m) \<and> \<not> restoring (srv m))"

text \<open>
  For an action other than Terminate: the lock step obtains the lock. With a non-zero wait
  bound that is the blocking acquisition's outcome, otherwise the lock must not be held.
\<close>

definition lock_obtained :: "world \<Rightarrow> machine \<Rightarrow> int list \<Rightarrow> bool" where
  "lock_obtained w m waitSeconds =
    (if length waitSeconds > 0 \<and> hd waitSeconds \<noteq> 0 then acquire_in_time w
     else powerLock (srv m) \<noteq> Some Held)"

text \<open>The calls of a lock step that obtains the lock, and every call a lock step can make.\<close>

definition lock_calls :: "machine \<Rightarrow> event list" where
  "lock_calls m = (case powerLock (srv m) of None \<Rightarrow> [NewWeighted 1] | Some l \<Rightarrow> [])"

definition acquire_call :: "int list \<Rightarrow> event" where
  "acquire_call waitSeconds =
    (if length waitSeconds > 0 \<and> hd waitSeconds \<noteq> 0
     then LockAcquire (hd waitSeconds) True else LockTryAcquire True)"

definition lock_events :: "int list \<Rightarrow> event set" where
  "lock_events waitSeconds =
    {NewWeighted 1, LockTryAcquire True, LockTryAcquire False,
     LockAcquire (hd waitSeconds) True, LockAcquire (hd waitSeconds) False, LockRelease}"

text \<open>
  The machine in which the action runs once the lock step has obtained the lock, and a
  run followed by the deferred release.
\<close>

definition after_lock :: "machine \<Rightarrow> int list \<Rightarrow> machine" where
  "after_lock m waitSeconds = emit (lock_calls m @ [acquire_call waitSeconds]) (set_lock Held m)"

definition released :: "error option \<times> machine \<Rightarrow> error option \<times> machine" where
  "released rm = (fst rm, deferred_release (snd rm))"

text \<open>
  The start path in the spec's words: run the pre-boot pipeline; a pipeline failure aborts
  before the backend is touched; on success invoke the backend's \<open>Start()\<close> and return its
  result as it is.
\<close>

definition start_path :: "world \<Rightarrow> machine \<Rightarrow> error option \<times> machine" where
  "start_path w m =
    (case onBeforeStart w m of
       (None, m') \<Rightarrow> (Start w, emit [EnvStart] m')
     | (Some err, m') \<Rightarrow> (Some err, m'))"

text \<open>Names for the pipeline's first calls, its space check and its two wrapped errors.\<close>

definition sync_calls :: "event list" where
  "sync_calls = [LogInfo ''syncing server configuration with panel'', CallSync]"

definition space_check_calls :: "event list" where
  "space_check_calls =
    [PublishConsoleOutputFromDaemon
       ''Checking server disk space usage, this could take a few seconds...'',
     FsHasSpaceErr False]"

definition SyncFailed :: "error \<Rightarrow> error" where
  "SyncFailed e = WithMessage e ''unable to sync server data from Panel instance''"

definition ChownFailed :: "error \<Rightarrow> error" where
  "ChownFailed e = WithMessage e ''failed to chown root server directory during pre-boot process''"

text \<open>
  The calls of the pipeline's last two steps (configuration files, then permissions when
  \<open>CheckPermissionsOnBoot\<close> is set), the result of the permission step, and the whole call
  list of a pipeline run that passes the disk-space step, in its unlimited and in its limited
  branch.
\<close>

definition config_calls :: "event list" where
  "config_calls =
    [PublishConsoleOutputFromDaemon ''Updating process configuration files...'',
     CallUpdateConfigurationFiles]"

definition permission_calls :: "world \<Rightarrow> event list" where
  "permission_calls w =
    (if CheckPermissionsOnBoot w
     then [PublishConsoleOutputFromDaemon
             ''Ensuring file permissions are set correctly, this could take a few seconds...'',
           FsChown ''/'']
     else [])"

definition permission_result :: "world \<Rightarrow> error option" where
  "permission_result w =
    (if CheckPermissionsOnBoot w then map_option ChownFailed (Chown w ''/'') else None)"

definition unlimited_calls :: "world \<Rightarrow> event list" where
  "unlimited_calls w =
    sync_calls @ [ReadSuspended, CallSyncWithEnvironment, FsHasSpaceAvailable True]
      @ config_calls @ permission_calls w"

definition limited_calls :: "world \<Rightarrow> event list" where
  "limited_calls w =
    sync_calls @ [ReadSuspended, CallSyncWithEnvironment] @ space_check_calls
      @ config_calls @ permission_calls w"

text \<open>The teardown's calls up to the backend's destruction, and the reinstall's refusal.\<close>

definition cancel_calls :: "world \<Rightarrow> machine \<Rightarrow> event list" where
  "cancel_calls w m =
    [SetSuspended True, CtxCancel, EventsDestroy, WebsocketsCancelAll]
      @ map DownloadCancel (ByServer w (uuid (srv m)))"

definition conflict :: response where
  "conflict = AbortWithStatusJSON 409
     ''Cannot execute server reinstall event while another power action is running.''"

subsection \<open>Concrete servers and collaborators\<close>

text \<open>
  \<open>quiet_world\<close>: every collaborator succeeds, the process is offline, a blocking acquisition
  would time out. \<open>fresh_machine\<close>: a server that never had a power action; \<open>busy_machine\<close>:
  the same server while another power action holds its lock; \<open>installing_machine\<close>: the busy
  server while it is also installing.
\<close>

definition quiet_world :: world where
  "quiet_world =
    \<lparr>State = ProcessOfflineState, Start = None, WaitForStop = (\<lambda>t force. None),
     Terminate = (\<lambda>sig. None), Destroy = None, Sync = (\<lambda>c. (None, c)),
     HasSpaceAvailable = (\<lambda>b. True), HasSpaceErr = (\<lambda>b. None), Chown = (\<lambda>p. None),
     CheckPermissionsOnBoot = False, acquire_in_time = False,
     ByServer = (\<lambda>i. []), Path = ''/srv/volumes/s1''\<rparr>"

definition running_world :: world where
  "running_world = quiet_world\<lparr>State := ProcessOtherState ''running''\<rparr>"

definition fresh_server :: server where
  "fresh_server =
    \<lparr>uuid = ''s1'', cfg = \<lparr>Suspended = False, DiskSpace = 0\<rparr>, installing = False,
     transferring = False, restoring = False, powerLock = None\<rparr>"

definition fresh_machine :: machine where
  "fresh_machine =
    \<lparr>srv = fresh_server, calls = [], spawned = [], manager = [''s1'', ''s2''], response = None\<rparr>"

definition busy_machine :: machine where
  "busy_machine = set_lock Held fresh_machine"

definition installing_machine :: machine where
  "installing_machine = busy_machine\<lparr>srv := (srv busy_machine)\<lparr>installing := True\<rparr>\<rparr>"

text \<open>
  Worlds in which one collaborator fails or the panel reports a suspension, and servers that
  are suspended or have a disk limit.
\<close>

definition stop_fails_world :: world where
  "stop_fails_world =
    quiet_world\<lparr>WaitForStop := (\<lambda>t force. Some (Collaborator ''process killed after timeout''))\<rparr>"

definition sync_fails_world :: world where
  "sync_fails_world = quiet_world\<lparr>Sync := (\<lambda>c. (Some (Collaborator ''panel unreachable''), c))\<rparr>"

definition suspending_world :: world where
  "suspending_world = quiet_world\<lparr>Sync := (\<lambda>c. (None, c\<lparr>Suspended := True\<rparr>))\<rparr>"

definition no_space_world :: world where
  "no_space_world = quiet_world\<lparr>HasSpaceErr := (\<lambda>b. Some (Collaborator ''not enough disk space''))\<rparr>"

definition destroy_fails_world :: world where
  "destroy_fails_world = quiet_world\<lparr>Destroy := Some (Collaborator ''container in use'')\<rparr>"

definition suspended_machine :: machine where
  "suspended_machine = set_cfg \<lparr>Suspended = True, DiskSpace = 0\<rparr> fresh_machine"

definition limited_machine :: machine where
  "limited_machine = set_cfg \<lparr>Suspended = False, DiskSpace = 1024\<rparr> fresh_machine"

section \<open>Basic facts\<close>

lemmas example_defs = quiet_world_def running_world_def fresh_server_def fresh_machine_def
  busy_machine_def installing_machine_def set_lock_def emit_def gate_passed_def
  stop_fails_world_def sync_fails_world_def suspending_world_def no_space_world_def
  destroy_fails_world_def suspended_machine_def limited_machine_def set_cfg_def

lemma actions_distinct [simp]:
  "PowerActionStart \<noteq> PowerActionStop" "PowerActionStart \<noteq> PowerActionRestart"
  "PowerActionStart \<noteq> PowerActionTerminate" "PowerActionStop \<noteq> PowerActionStart"
  "PowerActionStop \<noteq> PowerActionRestart" "PowerActionStop \<noteq> PowerActionTerminate"
  "PowerActionRestart \<noteq> PowerActionStart" "PowerActionRestart \<noteq> PowerActionStop"
  "PowerActionRestart \<noteq> PowerActionTerminate" "PowerActionTerminate \<noteq> PowerActionStart"
  "PowerActionTerminate \<noteq> PowerActionStop" "PowerActionTerminate \<noteq> PowerActionRestart"
  by (simp_all add: PowerActionStart_def PowerActionStop_def PowerActionRestart_def
      PowerActionTerminate_def)

lemma not_Held [simp]: "(l \<noteq> Held) = (l = Free)"
  by (cases l) simp_all

lemma TryAcquire_eq: "TryAcquire l = (l = Free, Held)"
  by (cases l) simp_all

lemma srv_emit [simp]: "srv (emit evs m) = srv m"
  by (simp add: emit_def)

lemma spawned_emit [simp]: "spawned (emit evs m) = spawned m"
  by (simp add: emit_def)

lemma calls_emit [simp]: "calls (emit evs m) = calls m @ evs"
  by (simp add: emit_def)

lemma cfg_set_cfg [simp]: "cfg (srv (set_cfg c m)) = c"
  by (simp add: set_cfg_def)

lemma calls_set_cfg [simp]: "calls (set_cfg c m) = calls m"
  by (simp add: set_cfg_def)

lemma spawned_set_cfg [simp]: "spawned (set_cfg c m) = spawned m"
  by (simp add: set_cfg_def)

lemma cfg_set_lock [simp]: "cfg (srv (set_lock l m)) = cfg (srv m)"
  by (simp add: set_lock_def)

lemma calls_set_lock [simp]: "calls (set_lock l m) = calls m"
  by (simp add: set_lock_def)

lemma calls_deferred_release [simp]: "calls (deferred_release m) = calls m @ [LockRelease]"
  by (simp add: deferred_release_def)

lemma calls_kick_off_usage [simp]:
  "calls (snd (kick_off_usage w m)) = calls m @ [FsHasSpaceAvailable True]"
  by (simp add: kick_off_usage_def)

lemma spawned_kick_off_usage [simp]:
  "spawned (snd (kick_off_usage w m)) = spawned m @ [UpdateCachedDiskUsage]"
  by (simp add: kick_off_usage_def)

lemma srv_kick_off_usage [simp]: "srv (snd (kick_off_usage w m)) = srv m"
  by (simp add: kick_off_usage_def)

subsection \<open>The dispatch once the lock is obtained\<close>

lemma HandlePowerAction_locked:
  assumes "gate_passed m" and "lock_obtained w m waitSeconds" and "action \<noteq> PowerActionTerminate"
  shows "HandlePowerAction w m action waitSeconds
           = released (power_switch w (after_lock m waitSeconds) action)"
  using assms
  by (auto simp add: HandlePowerAction_def lock_step_def released_def after_lock_def
      gate_passed_def lock_obtained_def lock_calls_def acquire_call_def
      Acquire_def TryAcquire_eq emit_def set_lock_def
      split: option.splits bool.splits prod.splits)

subsection \<open>Runs only add calls\<close>

lemma onBeforeStart_extends: "\<exists>evs. calls (snd (onBeforeStart w m)) = calls m @ evs"
  by (simp add: onBeforeStart_def Let_def split: prod.splits option.splits)

lemma power_switch_extends: "\<exists>evs. calls (snd (power_switch w m action)) = calls m @ evs"
proof -
  obtain e1 where e1: "calls (snd (onBeforeStart w (emit [EnvState] m))) = calls m @ [EnvState] @ e1"
    using onBeforeStart_extends [of w "emit [EnvState] m"] by auto
  obtain e2 where e2: "calls (snd (onBeforeStart w (emit [EnvWaitForStop 600 True] m)))
      = calls m @ [EnvWaitForStop 600 True] @ e2"
    using onBeforeStart_extends [of w "emit [EnvWaitForStop 600 True] m"] by auto
  show ?thesis using e1 e2
    by (simp add: power_switch_def split_beta Let_def split: option.splits)
qed

subsection \<open>The pipeline at the disk-space step\<close>

lemma onBeforeStart_no_space:
  assumes "Sync w (cfg (srv m)) = (None, c)" and "\<not> Suspended c" and "0 < DiskSpace c"
    and "HasSpaceErr w False = Some e"
  shows "onBeforeStart w m =
    (Some e, emit (sync_calls @ [ReadSuspended, CallSyncWithEnvironment] @ space_check_calls)
               (set_cfg c m))"
  using assms
  by (simp add: onBeforeStart_def sync_calls_def space_check_calls_def emit_def set_cfg_def)

lemma onBeforeStart_unlimited:
  assumes "Sync w (cfg (srv m)) = (None, c)" and "\<not> Suspended c" and "DiskSpace c \<le> 0"
  shows "fst (onBeforeStart w m)
           = (if CheckPermissionsOnBoot w then map_option ChownFailed (Chown w ''/'') else None)"
    and "take 5 (new_calls m (snd (onBeforeStart w m)))
           = sync_calls @ [ReadSuspended, CallSyncWithEnvironment, FsHasSpaceAvailable True]"
    and "FsHasSpaceErr b \<notin> set (new_calls m (snd (onBeforeStart w m)))"
    and "spawned (snd (onBeforeStart w m)) = spawned m @ [UpdateCachedDiskUsage]"
  using assms
  by (simp_all add: onBeforeStart_def sync_calls_def ChownFailed_def new_calls_def Let_def
      split: option.splits)

lemma onBeforeStart_unlimited_run:
  assumes "Sync w (cfg (srv m)) = (None, c)" and "\<not> Suspended c" and "DiskSpace c \<le> 0"
  shows "onBeforeStart w m =
    (permission_result w,
     (emit (unlimited_calls w) (set_cfg c m))\<lparr>spawned := spawned m @ [UpdateCachedDiskUsage]\<rparr>)"
  using assms
  by (simp add: onBeforeStart_def kick_off_usage_def sync_calls_def config_calls_def
      permission_calls_def permission_result_def unlimited_calls_def ChownFailed_def
      emit_def set_cfg_def Let_def split: option.splits)

lemma onBeforeStart_space_ok:
  assumes "Sync w (cfg (srv m)) = (None, c)" and "\<not> Suspended c" and "0 < DiskSpace c"
    and "HasSpaceErr w False = None"
  shows "onBeforeStart w m = (permission_result w, emit (limited_calls w) (set_cfg c m))"
  using assms
  by (simp add: onBeforeStart_def sync_calls_def space_check_calls_def config_calls_def
      permission_calls_def permission_result_def limited_calls_def ChownFailed_def
      emit_def set_cfg_def Let_def split: option.splits)

lemma no_space_err_in_unlimited: "FsHasSpaceErr b \<notin> set (unlimited_calls w)"
  by (simp add: unlimited_calls_def sync_calls_def config_calls_def permission_calls_def)

lemma no_space_available_in_limited: "FsHasSpaceAvailable b \<notin> set (limited_calls w)"
  by (simp add: limited_calls_def sync_calls_def space_check_calls_def config_calls_def
      permission_calls_def)

lemma power_switch_no_space:
  assumes "Sync w (cfg (srv m)) = (None, c)" and "\<not> Suspended c" and "0 < DiskSpace c"
    and "HasSpaceErr w False = Some e"
  shows "EnvStart \<notin> set (new_calls m (snd (power_switch w m action)))"
  using assms
  by (simp add: power_switch_def onBeforeStart_no_space new_calls_def Let_def
      sync_calls_def space_check_calls_def split: option.splits)

lemma HandlePowerAction_no_space:
  assumes "Sync w (cfg (srv m)) = (None, c)" and "\<not> Suspended c" and "0 < DiskSpace c"
    and "HasSpaceErr w False = Some e"
  shows "EnvStart \<notin> set (new_calls m (snd (HandlePowerAction w m action waitSeconds)))"
proof -
  define pc where "pc M a = new_calls M (snd (power_switch w M a))" for M a
  have r1: "calls (snd (power_switch w M a)) = calls M @ pc M a" for M a
    using power_switch_extends [of w M a] by (auto simp add: pc_def new_calls_def)
  have r2: "EnvStart \<notin> set (pc M a)" if "cfg (srv M) = cfg (srv m)" for M a
    using that assms power_switch_no_space [of w M c e a] by (simp add: pc_def)
  show ?thesis
    by (simp add: HandlePowerAction_def lock_step_def Acquire_def TryAcquire_eq split_beta
        new_calls_def r1 r2 split: option.splits bool.splits)
qed

section \<open>The non-blocking probe\<close>

text \<open>
  C9. \<open>ExecutingPowerAction\<close> on a server whose lock was never created returns false and
  does nothing. On a server with a lock it makes exactly one \<open>TryAcquire\<close>: when the lock is
  free the attempt succeeds, the lock is released at once and the probe returns false; when the
  lock is held the attempt fails and the probe returns true. In all three cases the server is
  left as it was, in particular the lock is held after the probe exactly when it was held
  before.
\<close>

theorem ExecutingPowerAction_probe:
  "ExecutingPowerAction m =
     (case powerLock (srv m) of
        None \<Rightarrow> (False, m)
      | Some Free \<Rightarrow> (False, emit [LockTryAcquire True, LockRelease] m)
      | Some Held \<Rightarrow> (True, emit [LockTryAcquire False] m))
   \<and> powerLock (srv (snd (ExecutingPowerAction m))) = powerLock (srv m)"
  by (simp add: ExecutingPowerAction_def emit_def set_lock_def
      split: option.splits semaphore.splits)

theorem ExecutingPowerAction_probe_witness:
  "ExecutingPowerAction fresh_machine = (False, fresh_machine)
   \<and> ExecutingPowerAction busy_machine = (True, emit [LockTryAcquire False] busy_machine)"
  using ExecutingPowerAction_probe [of fresh_machine] ExecutingPowerAction_probe [of busy_machine]
  by (simp add: example_defs)

section \<open>Dispatching Terminate\<close>

text \<open>
  C1, as amended. For every server, dispatching Terminate returns a lock-timeout error only if
  the backend's own \<open>Terminate\<close> call returned it: the lock step never produces one. For every
  server that is not installing, transferring or restoring, the dispatch creates the lock if
  it is missing, makes one \<open>TryAcquire\<close>, calls the backend's \<open>Terminate(os.Kill)\<close> whether or
  not the lock was obtained, and returns that call's result unchanged; the lock is released
  before the dispatch returns exactly when the attempt obtained it, and a lock held by someone
  else stays held.
\<close>

theorem Terminate_dispatch:
  "(fst (HandlePowerAction w m PowerActionTerminate waitSeconds) = Some LockTimeout
      \<longrightarrow> Terminate w Kill = Some LockTimeout)
   \<and> (gate_passed m \<longrightarrow>
        HandlePowerAction w m PowerActionTerminate waitSeconds =
          (Terminate w Kill,
           case powerLock (srv m) of
             None \<Rightarrow> emit [NewWeighted 1, LockTryAcquire True, EnvTerminate Kill, LockRelease]
                       (set_lock Free m)
           | Some Free \<Rightarrow> emit [LockTryAcquire True, EnvTerminate Kill, LockRelease] m
           | Some Held \<Rightarrow> emit [LockTryAcquire False, EnvTerminate Kill] m))"
  by (simp add: HandlePowerAction_def lock_step_def power_switch_def deferred_release_def
      gate_passed_def LockTimeout_def emit_def set_lock_def
      split: option.splits semaphore.splits)

theorem Terminate_dispatch_witness:
  "gate_passed busy_machine
   \<and> HandlePowerAction quiet_world busy_machine PowerActionTerminate [] =
       (None, emit [LockTryAcquire False, EnvTerminate Kill] busy_machine)"
  using Terminate_dispatch [of quiet_world busy_machine "[]"]
  by (simp add: example_defs)

text \<open>
  The claim as written fails on an installing server: the gate returns the installing error,
  no acquisition is attempted and the backend's \<open>Terminate\<close> is never called.
\<close>

theorem Terminate_gated_counterexample:
  "HandlePowerAction quiet_world installing_machine PowerActionTerminate []
     = (Some ErrServerIsInstalling, installing_machine)
   \<and> Terminate quiet_world Kill = None
   \<and> calls installing_machine = []"
  by (simp add: HandlePowerAction_def example_defs)

section \<open>Dispatching without a wait bound on a held lock\<close>

text \<open>
  C6, as amended. For every server that is not installing, transferring or restoring and whose
  lock is held, every action other than Terminate dispatched with no wait bound, or with a
  wait bound of zero, makes a single \<open>TryAcquire\<close> and nothing else (no blocking \<open>Acquire\<close>,
  no backend call), leaves the server as it was, and returns the lock-timeout error, which
  wraps \<open>context.DeadlineExceeded\<close>.
\<close>

theorem no_wait_on_held_lock:
  assumes "gate_passed m" and "action \<noteq> PowerActionTerminate"
    and "waitSeconds = [] \<or> hd waitSeconds = 0"
    and "powerLock (srv m) = Some Held"
  shows "HandlePowerAction w m action waitSeconds = (Some LockTimeout, emit [LockTryAcquire False] m)
    \<and> errors_Is LockTimeout DeadlineExceeded"
  using assms
  by (auto simp add: HandlePowerAction_def lock_step_def gate_passed_def LockTimeout_def
      emit_def set_lock_def)

theorem no_wait_on_held_lock_witness:
  "gate_passed busy_machine \<and> PowerActionStart \<noteq> PowerActionTerminate
   \<and> powerLock (srv busy_machine) = Some Held
   \<and> HandlePowerAction quiet_world busy_machine PowerActionStart [0] =
       (Some LockTimeout, emit [LockTryAcquire False] busy_machine)"
  using no_wait_on_held_lock [of busy_machine PowerActionStart "[0]" quiet_world]
  by (simp add: example_defs)

text \<open>
  The claim as written fails on an installing server whose lock is held: the gate answers
  first, with the installing error, and no acquisition is attempted.
\<close>

theorem no_wait_gated_counterexample:
  "PowerActionStart \<noteq> PowerActionTerminate
   \<and> powerLock (srv installing_machine) = Some Held
   \<and> HandlePowerAction quiet_world installing_machine PowerActionStart [0] =
       (Some ErrServerIsInstalling, installing_machine)
   \<and> ErrServerIsInstalling \<noteq> LockTimeout
   \<and> calls installing_machine = []"
  by (simp add: HandlePowerAction_def LockTimeout_def example_defs)

section \<open>Dispatching Start on a process that is not offline\<close>

text \<open>
  C7, as amended. For every server whose backend state is not Offline, dispatching Start
  fails, makes no call other than lock calls and the state query (so no step of the pre-boot
  pipeline and no backend \<open>Start\<close>), and spawns nothing. When moreover the server is not
  installing, transferring or restoring and the lock step obtains the lock, the error is
  \<open>ErrIsRunning\<close> and the calls are exactly: the lock's creation if it was missing, the
  acquisition, the state query, the release.
\<close>

theorem Start_when_not_offline:
  assumes "State w \<noteq> ProcessOfflineState"
  shows "fst (HandlePowerAction w m PowerActionStart waitSeconds) \<noteq> None
    \<and> set (new_calls m (snd (HandlePowerAction w m PowerActionStart waitSeconds)))
          \<subseteq> insert EnvState (lock_events waitSeconds)
    \<and> spawned (snd (HandlePowerAction w m PowerActionStart waitSeconds)) = spawned m
    \<and> (gate_passed m \<and> lock_obtained w m waitSeconds \<longrightarrow>
          fst (HandlePowerAction w m PowerActionStart waitSeconds) = Some ErrIsRunning
        \<and> new_calls m (snd (HandlePowerAction w m PowerActionStart waitSeconds))
              = lock_calls m @ [acquire_call waitSeconds, EnvState, LockRelease])"
  using assms
  by (auto simp add: HandlePowerAction_def lock_step_def power_switch_def deferred_release_def
      gate_passed_def lock_obtained_def lock_calls_def acquire_call_def lock_events_def
      Acquire_def TryAcquire_eq new_calls_def emit_def set_lock_def
      split: option.splits bool.splits)

theorem Start_when_not_offline_witness:
  "State running_world \<noteq> ProcessOfflineState
   \<and> gate_passed fresh_machine \<and> lock_obtained running_world fresh_machine []
   \<and> fst (HandlePowerAction running_world fresh_machine PowerActionStart []) = Some ErrIsRunning
   \<and> new_calls fresh_machine (snd (HandlePowerAction running_world fresh_machine PowerActionStart []))
       = [NewWeighted 1, LockTryAcquire True, EnvState, LockRelease]"
  using Start_when_not_offline [of running_world fresh_machine "[]"]
  by (simp add: example_defs lock_obtained_def lock_calls_def acquire_call_def)

text \<open>
  The claim as written fails on an installing server whose process is running: the dispatch
  fails with the installing error, not with \<open>ErrIsRunning\<close>.
\<close>

theorem Start_gated_counterexample:
  "State running_world \<noteq> ProcessOfflineState
   \<and> fst (HandlePowerAction running_world installing_machine PowerActionStart [])
       = Some ErrServerIsInstalling
   \<and> ErrServerIsInstalling \<noteq> ErrIsRunning"
  by (simp add: HandlePowerAction_def example_defs)

section \<open>Dispatching Restart\<close>

text \<open>
  C5, as amended. For every server, if the stop-wait of a Restart returns an error, the
  dispatch makes no call other than lock calls and \<open>WaitForStop(600, true)\<close>: no step of the
  pre-boot pipeline and no backend \<open>Start\<close>. For every server that is not installing,
  transferring or restoring and for which the lock step obtains the lock: Stop runs
  \<open>WaitForStop(600, true)\<close> and returns its result; Restart whose stop-wait returns an error
  does exactly what Stop does and returns that error unchanged; Restart whose stop-wait
  succeeds then runs the start path (pre-boot pipeline, then \<open>Start\<close>), which is also what
  Start runs on an offline process.
\<close>

theorem Restart_dispatch:
  "(WaitForStop w 600 True \<noteq> None \<longrightarrow>
      set (new_calls m (snd (HandlePowerAction w m PowerActionRestart waitSeconds)))
        \<subseteq> insert (EnvWaitForStop 600 True) (lock_events waitSeconds))
   \<and> (gate_passed m \<and> lock_obtained w m waitSeconds \<longrightarrow>
        HandlePowerAction w m PowerActionStop waitSeconds
          = released (WaitForStop w 600 True,
                      emit [EnvWaitForStop 600 True] (after_lock m waitSeconds))
      \<and> (WaitForStop w 600 True \<noteq> None \<longrightarrow>
            HandlePowerAction w m PowerActionRestart waitSeconds
              = HandlePowerAction w m PowerActionStop waitSeconds)
      \<and> (WaitForStop w 600 True = None \<longrightarrow>
            HandlePowerAction w m PowerActionRestart waitSeconds
              = released (start_path w (emit [EnvWaitForStop 600 True] (after_lock m waitSeconds))))
      \<and> (State w = ProcessOfflineState \<longrightarrow>
            HandlePowerAction w m PowerActionStart waitSeconds
              = released (start_path w (emit [EnvState] (after_lock m waitSeconds)))))"
proof -
  have a: "WaitForStop w 600 True \<noteq> None \<longrightarrow>
      set (new_calls m (snd (HandlePowerAction w m PowerActionRestart waitSeconds)))
        \<subseteq> insert (EnvWaitForStop 600 True) (lock_events waitSeconds)"
    by (auto simp add: HandlePowerAction_def lock_step_def power_switch_def deferred_release_def
        lock_events_def Acquire_def TryAcquire_eq new_calls_def emit_def set_lock_def
        split: option.splits bool.splits)
  have b: "HandlePowerAction w m PowerActionStop waitSeconds
          = released (WaitForStop w 600 True,
                      emit [EnvWaitForStop 600 True] (after_lock m waitSeconds))"
    if "gate_passed m" "lock_obtained w m waitSeconds"
    using that by (simp add: HandlePowerAction_locked power_switch_def)
  have c: "HandlePowerAction w m PowerActionRestart waitSeconds
              = HandlePowerAction w m PowerActionStop waitSeconds"
    if "gate_passed m" "lock_obtained w m waitSeconds" "WaitForStop w 600 True \<noteq> None"
    using that by (auto simp add: HandlePowerAction_locked power_switch_def)
  have d: "HandlePowerAction w m PowerActionRestart waitSeconds
              = released (start_path w (emit [EnvWaitForStop 600 True] (after_lock m waitSeconds)))"
    if "gate_passed m" "lock_obtained w m waitSeconds" "WaitForStop w 600 True = None"
    using that
    by (simp add: HandlePowerAction_locked power_switch_def start_path_def
        split: prod.splits option.splits)
  have e: "HandlePowerAction w m PowerActionStart waitSeconds
              = released (start_path w (emit [EnvState] (after_lock m waitSeconds)))"
    if "gate_passed m" "lock_obtained w m waitSeconds" "State w = ProcessOfflineState"
    using that
    by (simp add: HandlePowerAction_locked power_switch_def start_path_def
        split: prod.splits option.splits)
  from a b c d e show ?thesis by blast
qed

theorem Restart_dispatch_witness:
  "WaitForStop stop_fails_world 600 True \<noteq> None
   \<and> gate_passed fresh_machine \<and> lock_obtained stop_fails_world fresh_machine []
   \<and> fst (HandlePowerAction stop_fails_world fresh_machine PowerActionRestart [])
       = Some (Collaborator ''process killed after timeout'')
   \<and> new_calls fresh_machine
         (snd (HandlePowerAction stop_fails_world fresh_machine PowerActionRestart []))
       = [NewWeighted 1, LockTryAcquire True, EnvWaitForStop 600 True, LockRelease]
   \<and> WaitForStop quiet_world 600 True = None
   \<and> lock_obtained quiet_world fresh_machine []
   \<and> fst (HandlePowerAction quiet_world fresh_machine PowerActionRestart []) = None
   \<and> new_calls fresh_machine
         (snd (HandlePowerAction quiet_world fresh_machine PowerActionRestart []))
       = [NewWeighted 1, LockTryAcquire True, EnvWaitForStop 600 True]
         @ sync_calls @ [ReadSuspended, CallSyncWithEnvironment, FsHasSpaceAvailable True,
            PublishConsoleOutputFromDaemon ''Updating process configuration files...'',
            CallUpdateConfigurationFiles, EnvStart, LockRelease]"
  using Restart_dispatch [of stop_fails_world fresh_machine "[]"]
    Restart_dispatch [of quiet_world fresh_machine "[]"]
  by (simp add: example_defs lock_obtained_def lock_calls_def acquire_call_def released_def
      after_lock_def start_path_def onBeforeStart_def kick_off_usage_def deferred_release_def
      sync_calls_def new_calls_def)

text \<open>
  The claim as written fails on an installing server: the dispatch of Restart returns the
  installing error and performs no stop-wait at all.
\<close>

theorem Restart_gated_counterexample:
  "HandlePowerAction quiet_world installing_machine PowerActionRestart []
     = (Some ErrServerIsInstalling, installing_machine)
   \<and> calls installing_machine = []"
  by (simp add: HandlePowerAction_def example_defs)

section \<open>The suspension check of the pre-boot pipeline\<close>

text \<open>
  C4. In every run of the pre-boot pipeline the first calls are the log line and \<open>Sync()\<close>;
  the suspended flag is read only in runs whose \<open>Sync()\<close> succeeded, and it is the flag of the
  configuration \<open>Sync()\<close> left. If \<open>Sync()\<close> fails, the pipeline returns the sync error
  (wrapped with its message) whatever the suspended flag is. If the pipeline returns
  \<open>ErrSuspended\<close>, \<open>Sync()\<close> succeeded; and it does return \<open>ErrSuspended\<close>, right after reading
  the flag, whenever \<open>Sync()\<close> succeeded and left the flag set.
\<close>

theorem suspension_checked_after_sync:
  "(\<forall>e c. Sync w (cfg (srv m)) = (Some e, c) \<longrightarrow>
        onBeforeStart w m = (Some (SyncFailed e), set_cfg c (emit sync_calls m)))
   \<and> (\<forall>c. Sync w (cfg (srv m)) = (None, c) \<and> Suspended c \<longrightarrow>
        onBeforeStart w m = (Some ErrSuspended, emit [ReadSuspended] (set_cfg c (emit sync_calls m))))
   \<and> (fst (onBeforeStart w m) = Some ErrSuspended \<longrightarrow> fst (Sync w (cfg (srv m))) = None)
   \<and> take 2 (new_calls m (snd (onBeforeStart w m))) = sync_calls
   \<and> (ReadSuspended \<in> set (new_calls m (snd (onBeforeStart w m)))
        \<longrightarrow> fst (Sync w (cfg (srv m))) = None)"
proof -
  have a: "\<forall>e c. Sync w (cfg (srv m)) = (Some e, c) \<longrightarrow>
        onBeforeStart w m = (Some (SyncFailed e), set_cfg c (emit sync_calls m))"
    by (simp add: onBeforeStart_def sync_calls_def SyncFailed_def)
  have b: "\<forall>c. Sync w (cfg (srv m)) = (None, c) \<and> Suspended c \<longrightarrow>
        onBeforeStart w m = (Some ErrSuspended, emit [ReadSuspended] (set_cfg c (emit sync_calls m)))"
    by (simp add: onBeforeStart_def sync_calls_def)
  have c: "fst (onBeforeStart w m) = Some ErrSuspended \<longrightarrow> fst (Sync w (cfg (srv m))) = None"
  proof (cases "Sync w (cfg (srv m))")
    case (Pair r c)
    show ?thesis
    proof (cases r)
      case None
      with Pair show ?thesis by simp
    next
      case (Some e)
      with Pair a show ?thesis by (simp add: SyncFailed_def)
    qed
  qed
  have d: "take 2 (new_calls m (snd (onBeforeStart w m))) = sync_calls"
    by (simp add: onBeforeStart_def sync_calls_def new_calls_def Let_def
        split: prod.splits option.splits)
  have e: "ReadSuspended \<in> set (new_calls m (snd (onBeforeStart w m)))
        \<longrightarrow> fst (Sync w (cfg (srv m))) = None"
  proof (cases "Sync w (cfg (srv m))")
    case (Pair r c)
    show ?thesis
    proof (cases r)
      case None
      with Pair show ?thesis by simp
    next
      case (Some e)
      with Pair a show ?thesis by (simp add: sync_calls_def new_calls_def)
    qed
  qed
  from a b c d e show ?thesis by blast
qed

theorem suspension_checked_after_sync_witness:
  "Suspended (cfg (srv suspended_machine))
   \<and> Sync sync_fails_world (cfg (srv suspended_machine))
       = (Some (Collaborator ''panel unreachable''), cfg (srv suspended_machine))
   \<and> onBeforeStart sync_fails_world suspended_machine
       = (Some (SyncFailed (Collaborator ''panel unreachable'')), emit sync_calls suspended_machine)
   \<and> \<not> Suspended (cfg (srv fresh_machine))
   \<and> fst (Sync suspending_world (cfg (srv fresh_machine))) = None
   \<and> fst (onBeforeStart suspending_world fresh_machine) = Some ErrSuspended
   \<and> new_calls fresh_machine (snd (onBeforeStart suspending_world fresh_machine))
       = sync_calls @ [ReadSuspended]"
  using suspension_checked_after_sync [of sync_fails_world suspended_machine]
    suspension_checked_after_sync [of suspending_world fresh_machine]
  by (simp add: example_defs new_calls_def sync_calls_def)

section \<open>The disk-space step of the pre-boot pipeline\<close>

text \<open>
  C8. Take a run of the pre-boot pipeline that reaches the disk-space step: \<open>Sync()\<close>
  succeeded and the server is not suspended. If the disk limit is \<open>\<le> 0\<close>, the run is known
  call by call: after the synchronization calls it calls \<open>HasSpaceAvailable(true)\<close>, which
  starts the usage recalculation as a detached task that is still pending when the pipeline
  returns, then goes straight on to the configuration files and the permission step. It never
  calls \<open>HasSpaceErr\<close>, with either argument, so it waits on no space check, and its result
  is that of the permission step alone, whatever the space collaborator would answer. If the
  limit is positive, the pipeline calls \<open>HasSpaceErr(false)\<close> itself, spawns nothing and
  never calls \<open>HasSpaceAvailable\<close>: when the check returns no error the run goes on to the
  configuration files and the permission step; when it returns an error the run stops there
  and returns that error, and no dispatch, whatever the action and the wait bound, then
  reaches the backend's \<open>Start()\<close>.
\<close>

theorem disk_space_step:
  assumes "Sync w (cfg (srv m)) = (None, c)" and "\<not> Suspended c"
  shows "(DiskSpace c \<le> 0 \<longrightarrow>
            onBeforeStart w m
              = (permission_result w,
                 (emit (unlimited_calls w) (set_cfg c m))
                   \<lparr>spawned := spawned m @ [UpdateCachedDiskUsage]\<rparr>)
          \<and> fst (onBeforeStart w m)
              = (if CheckPermissionsOnBoot w then map_option ChownFailed (Chown w ''/'') else None)
          \<and> new_calls m (snd (onBeforeStart w m)) = unlimited_calls w
          \<and> take 5 (new_calls m (snd (onBeforeStart w m)))
              = sync_calls @ [ReadSuspended, CallSyncWithEnvironment, FsHasSpaceAvailable True]
          \<and> (\<forall>b. FsHasSpaceErr b \<notin> set (new_calls m (snd (onBeforeStart w m))))
          \<and> FsHasSpaceErr False \<notin> set (new_calls m (snd (onBeforeStart w m)))
          \<and> spawned (snd (onBeforeStart w m)) = spawned m @ [UpdateCachedDiskUsage])
       \<and> (0 < DiskSpace c \<and> HasSpaceErr w False = None \<longrightarrow>
            onBeforeStart w m = (permission_result w, emit (limited_calls w) (set_cfg c m))
          \<and> (\<forall>b. FsHasSpaceAvailable b \<notin> set (new_calls m (snd (onBeforeStart w m))))
          \<and> spawned (snd (onBeforeStart w m)) = spawned m)
       \<and> (\<forall>e. 0 < DiskSpace c \<and> HasSpaceErr w False = Some e \<longrightarrow>
            onBeforeStart w m
              = (Some e, emit (sync_calls @ [ReadSuspended, CallSyncWithEnvironment]
                                 @ space_check_calls) (set_cfg c m))
          \<and> spawned (snd (onBeforeStart w m)) = spawned m
          \<and> (\<forall>action waitSeconds.
                EnvStart \<notin> set (new_calls m (snd (HandlePowerAction w m action waitSeconds)))))"
proof -
  have u: "DiskSpace c \<le> 0 \<longrightarrow>
            onBeforeStart w m
              = (permission_result w,
                 (emit (unlimited_calls w) (set_cfg c m))
                   \<lparr>spawned := spawned m @ [UpdateCachedDiskUsage]\<rparr>)
          \<and> fst (onBeforeStart w m)
              = (if CheckPermissionsOnBoot w then map_option ChownFailed (Chown w ''/'') else None)
          \<and> new_calls m (snd (onBeforeStart w m)) = unlimited_calls w
          \<and> take 5 (new_calls m (snd (onBeforeStart w m)))
              = sync_calls @ [ReadSuspended, CallSyncWithEnvironment, FsHasSpaceAvailable True]
          \<and> (\<forall>b. FsHasSpaceErr b \<notin> set (new_calls m (snd (onBeforeStart w m))))
          \<and> FsHasSpaceErr False \<notin> set (new_calls m (snd (onBeforeStart w m)))
          \<and> spawned (snd (onBeforeStart w m)) = spawned m @ [UpdateCachedDiskUsage]"
  proof
    assume le: "DiskSpace c \<le> 0"
    have run: "onBeforeStart w m
              = (permission_result w,
                 (emit (unlimited_calls w) (set_cfg c m))
                   \<lparr>spawned := spawned m @ [UpdateCachedDiskUsage]\<rparr>)"
      using onBeforeStart_unlimited_run [OF assms le] .
    have nc: "new_calls m (snd (onBeforeStart w m)) = unlimited_calls w"
      by (simp add: run new_calls_def)
    show "onBeforeStart w m
              = (permission_result w,
                 (emit (unlimited_calls w) (set_cfg c m))
                   \<lparr>spawned := spawned m @ [UpdateCachedDiskUsage]\<rparr>)
          \<and> fst (onBeforeStart w m)
              = (if CheckPermissionsOnBoot w then map_option ChownFailed (Chown w ''/'') else None)
          \<and> new_calls m (snd (onBeforeStart w m)) = unlimited_calls w
          \<and> take 5 (new_calls m (snd (onBeforeStart w m)))
              = sync_calls @ [ReadSuspended, CallSyncWithEnvironment, FsHasSpaceAvailable True]
          \<and> (\<forall>b. FsHasSpaceErr b \<notin> set (new_calls m (snd (onBeforeStart w m))))
          \<and> FsHasSpaceErr False \<notin> set (new_calls m (snd (onBeforeStart w m)))
          \<and> spawned (snd (onBeforeStart w m)) = spawned m @ [UpdateCachedDiskUsage]"
      using onBeforeStart_unlimited [OF assms le] run nc no_space_err_in_unlimited
      by simp
  qed
  have l: "0 < DiskSpace c \<and> HasSpaceErr w False = None \<longrightarrow>
            onBeforeStart w m = (permission_result w, emit (limited_calls w) (set_cfg c m))
          \<and> (\<forall>b. FsHasSpaceAvailable b \<notin> set (new_calls m (snd (onBeforeStart w m))))
          \<and> spawned (snd (onBeforeStart w m)) = spawned m"
    using onBeforeStart_space_ok [OF assms] no_space_available_in_limited
    by (simp add: new_calls_def)
  have n: "\<forall>e. 0 < DiskSpace c \<and> HasSpaceErr w False = Some e \<longrightarrow>
            onBeforeStart w m
              = (Some e, emit (sync_calls @ [ReadSuspended, CallSyncWithEnvironment]
                                 @ space_check_calls) (set_cfg c m))
          \<and> spawned (snd (onBeforeStart w m)) = spawned m
          \<and> (\<forall>action waitSeconds.
                EnvStart \<notin> set (new_calls m (snd (HandlePowerAction w m action waitSeconds))))"
    using onBeforeStart_no_space [OF assms] HandlePowerAction_no_space [OF assms]
    by simp
  from u l n show ?thesis by blast
qed

theorem disk_space_step_witness:
  "Sync quiet_world (cfg (srv fresh_machine)) = (None, cfg (srv fresh_machine))
   \<and> \<not> Suspended (cfg (srv fresh_machine)) \<and> DiskSpace (cfg (srv fresh_machine)) \<le> 0
   \<and> fst (onBeforeStart quiet_world fresh_machine) = None
   \<and> new_calls fresh_machine (snd (onBeforeStart quiet_world fresh_machine))
       = sync_calls @ [ReadSuspended, CallSyncWithEnvironment, FsHasSpaceAvailable True]
           @ config_calls
   \<and> spawned (snd (onBeforeStart quiet_world fresh_machine)) = [UpdateCachedDiskUsage]
   \<and> 0 < DiskSpace (cfg (srv limited_machine))
   \<and> HasSpaceErr quiet_world False = None
   \<and> fst (onBeforeStart quiet_world limited_machine) = None
   \<and> new_calls limited_machine (snd (onBeforeStart quiet_world limited_machine))
       = sync_calls @ [ReadSuspended, CallSyncWithEnvironment] @ space_check_calls @ config_calls
   \<and> spawned (snd (onBeforeStart quiet_world limited_machine)) = []
   \<and> Sync no_space_world (cfg (srv limited_machine)) = (None, cfg (srv limited_machine))
   \<and> \<not> Suspended (cfg (srv limited_machine))
   \<and> HasSpaceErr no_space_world False = Some (Collaborator ''not enough disk space'')
   \<and> fst (onBeforeStart no_space_world limited_machine)
       = Some (Collaborator ''not enough disk space'')
   \<and> EnvStart \<notin> set (new_calls limited_machine
         (snd (HandlePowerAction no_space_world limited_machine PowerActionStart [])))"
  using disk_space_step [of quiet_world fresh_machine "cfg (srv fresh_machine)"]
    disk_space_step [of quiet_world limited_machine "cfg (srv limited_machine)"]
    disk_space_step [of no_space_world limited_machine "cfg (srv limited_machine)"]
  by (simp add: example_defs new_calls_def unlimited_calls_def limited_calls_def
      permission_calls_def permission_result_def)

section \<open>The deletion cascade\<close>

text \<open>
  C2. \<open>deleteServer\<close> sets the suspended flag before anything else, then cancels the
  server's context, event bus, websockets and pending downloads, then calls the backend's
  \<open>Destroy()\<close>. If \<open>Destroy()\<close> returns an error, the handler answers with that error and
  stops: the manager still holds the server and no file removal was spawned. If \<open>Destroy()\<close>
  succeeds, the handler spawns the removal of the server's files as a goroutine, which is
  still pending when the handler returns, removes the server from the manager itself, and
  answers 204.
\<close>

theorem deleteServer_cascade:
  "Suspended (cfg (srv (deleteServer w m)))
   \<and> take 1 (new_calls m (deleteServer w m)) = [SetSuspended True]
   \<and> (\<forall>e. Destroy w = Some e \<longrightarrow>
         response (deleteServer w m) = Some (WithError e)
       \<and> manager (deleteServer w m) = manager m
       \<and> spawned (deleteServer w m) = spawned m
       \<and> new_calls m (deleteServer w m) = cancel_calls w m @ [EnvDestroy])
   \<and> (Destroy w = None \<longrightarrow>
         response (deleteServer w m) = Some (Status 204)
       \<and> spawned (deleteServer w m) = spawned m @ [RemoveAll (Path w)]
       \<and> manager (deleteServer w m) = filter (\<lambda>i. i \<noteq> uuid (srv m)) (manager m)
       \<and> uuid (srv m) \<notin> set (manager (deleteServer w m))
       \<and> new_calls m (deleteServer w m)
           = cancel_calls w m @ [EnvDestroy, Go (RemoveAll (Path w)), ManagerRemove (uuid (srv m))])"
  by (simp add: deleteServer_def cancel_calls_def Remove_def go_def respond_def set_cfg_def
      emit_def new_calls_def Let_def split: option.splits)

theorem deleteServer_cascade_witness:
  "Destroy quiet_world = None
   \<and> manager (deleteServer quiet_world fresh_machine) = [''s2'']
   \<and> spawned (deleteServer quiet_world fresh_machine) = [RemoveAll ''/srv/volumes/s1'']
   \<and> Destroy destroy_fails_world = Some (Collaborator ''container in use'')
   \<and> response (deleteServer destroy_fails_world fresh_machine)
       = Some (WithError (Collaborator ''container in use''))
   \<and> manager (deleteServer destroy_fails_world fresh_machine) = [''s1'', ''s2'']
   \<and> spawned (deleteServer destroy_fails_world fresh_machine) = []"
  using deleteServer_cascade [of quiet_world fresh_machine]
    deleteServer_cascade [of destroy_fails_world fresh_machine]
  by (simp add: example_defs)

section \<open>The probe in the router\<close>

text \<open>
  C3, as amended. A reinstall request for which \<open>ExecutingPowerAction\<close> reports a power
  action in progress is rejected with 409 Conflict and starts nothing; otherwise the
  reinstall is spawned and the answer is 202. A deletion request never consults the probe:
  \<open>deleteServer\<close> makes no lock call, and runs the same teardown whatever the state of the
  lock, which it leaves as it was.
\<close>

theorem probe_guards_reinstall_only:
  "(fst (ExecutingPowerAction m) \<longrightarrow>
       response (postServerReinstall m) = Some conflict
     \<and> spawned (postServerReinstall m) = spawned m
     \<and> new_calls m (postServerReinstall m) = [LockTryAcquire False])
   \<and> (\<not> fst (ExecutingPowerAction m) \<longrightarrow>
       response (postServerReinstall m) = Some (Status 202)
     \<and> spawned (postServerReinstall m) = spawned m @ [Reinstall])
   \<and> deleteServer w (m\<lparr>srv := (srv m)\<lparr>powerLock := l\<rparr>\<rparr>)
       = (deleteServer w m)\<lparr>srv := (srv (deleteServer w m))\<lparr>powerLock := l\<rparr>\<rparr>
   \<and> LockTryAcquire b \<notin> set (new_calls m (deleteServer w m))"
  by (auto simp add: postServerReinstall_def ExecutingPowerAction_def TryAcquire_eq conflict_def
      deleteServer_def go_def respond_def set_cfg_def set_lock_def emit_def new_calls_def Let_def
      split: option.splits)

theorem probe_guards_reinstall_only_witness:
  "fst (ExecutingPowerAction busy_machine)
   \<and> response (postServerReinstall busy_machine) = Some conflict
   \<and> spawned (postServerReinstall busy_machine) = []
   \<and> \<not> fst (ExecutingPowerAction fresh_machine)
   \<and> spawned (postServerReinstall fresh_machine) = [Reinstall]"
  using probe_guards_reinstall_only [of busy_machine quiet_world None True]
    probe_guards_reinstall_only [of fresh_machine quiet_world None True]
  by (simp add: ExecutingPowerAction_def example_defs)

text \<open>
  The claim as written fails on a server whose lock is held: the probe reports a power action
  in progress, and the deletion request still runs the whole teardown and answers 204.
\<close>

theorem delete_while_busy_counterexample:
  "fst (ExecutingPowerAction busy_machine)
   \<and> response (deleteServer quiet_world busy_machine) = Some (Status 204)
   \<and> manager (deleteServer quiet_world busy_machine) = [''s2'']
   \<and> calls (deleteServer quiet_world busy_machine)
       = [SetSuspended True, CtxCancel, EventsDestroy, WebsocketsCancelAll, EnvDestroy,
          Go (RemoveAll ''/srv/volumes/s1''), ManagerRemove ''s1'']"
  by (simp add: ExecutingPowerAction_def deleteServer_def Remove_def go_def respond_def
      example_defs)

section \<open>Listing files over SFTP\<close>

text \<open>
  C10, as amended. For every file list \<open>l\<close>, buffer \<open>f\<close> and offset \<open>o \<ge> 0\<close>: \<open>ListAt\<close>
  returns \<open>(0, io.EOF)\<close> and leaves \<open>f\<close> untouched when \<open>o \<ge> length l\<close>; otherwise it
  overwrites the first \<open>n = min (length f) (length l - o)\<close> entries of \<open>f\<close> with the entries
  of \<open>l\<close> from index \<open>o\<close> on, leaves the rest of \<open>f\<close> as it was, and returns \<open>(n, io.EOF)\<close>
  when \<open>n < length f\<close> and \<open>(n, nil)\<close> when \<open>n = length f\<close>.
\<close>

theorem ListAt_nonneg:
  assumes "0 \<le> offset"
  shows "ListAt l f offset =
     (if int (length l) \<le> offset then Inr (f, 0, Some EOF)
      else let n = min (length f) (length l - nat offset) in
           Inr (take n (drop (nat offset) l) @ drop n f, n,
                if n < length f then Some EOF else None))"
  using assms by (simp add: ListAt_def copy_def Let_def)

theorem ListAt_nonneg_witness:
  "(0::int) \<le> 1
   \<and> ListAt [''a'', ''b'', ''c''] [''x'', ''y'', ''z''] 1 = Inr ([''b'', ''c'', ''z''], 2, Some EOF)"
  using ListAt_nonneg [of 1 "[''a'', ''b'', ''c'']" "[''x'', ''y'', ''z'']"]
  by simp

text \<open>
  The claim as written fails at a negative offset, which the \<open>int64\<close> parameter admits: the
  offset is below the length, and the slice expression \<open>l[offset:]\<close> panics instead of
  copying.
\<close>

theorem ListAt_negative_offset_counterexample:
  "ListAt [''a'', ''b''] [''x'', ''y''] (- 1) = Inl ''runtime error: slice bounds out of range''"
  by (simp add: ListAt_def)

end
